theory Spec2Isabelle
  imports Main
begin

section \<open>The container pipeline of package testcontainers\<close>

text \<open>
  The Go package drives a container runtime through image resolution, creation,
  starting and readiness waiting.  The embedding keeps the source's names.  Go's
  \<^verbatim>\<open>error\<close> is an \<open>error option\<close> (\<open>None\<close> is \<^verbatim>\<open>nil\<close>); a nil
  interface value is a constructor of its own, and a call through it (a nil
  dereference, which panics in Go) makes the enclosing function return \<open>None\<close>;
  so does a call on the zero logger, whose handler is nil.
  Pointer arguments and option functions are taken to be non-nil.
\<close>

subsection \<open>Collaborators declared outside the package file\<close>

type_synonym Port = string

type_synonym error = string

text \<open>A \<^verbatim>\<open>context.Context\<close>: the background context, or one the caller supplies.\<close>

datatype "context" = Background | CallerContext nat

text \<open>\<^verbatim>\<open>v1.Platform\<close> of the OCI image specification.\<close>

record Platform =
  Architecture :: string
  OS :: string
  OSVersion :: string
  OSFeatures :: "string list"
  Variant :: string

text \<open>
  The world a call runs in: the records the logger has written, and the state of
  the container runtime and of every other collaborator, of an arbitrary type \<open>'x\<close>.
  Collaborators act on the runtime state only.
\<close>

datatype Level = LevelInfo | LevelError

record 'x world =
  logged :: "(Level \<times> string) list"
  runtime :: 'x

definition on_runtime :: "('x \<Rightarrow> 'a \<times> 'x) \<Rightarrow> 'x world \<Rightarrow> 'a \<times> 'x world" where
  "on_runtime f w = (case f (runtime w) of (r, x) \<Rightarrow> (r, w\<lparr>runtime := x\<rparr>))"

text \<open>
  \<^verbatim>\<open>slog.Logger\<close>, a struct holding a handler.  \<open>ZeroLogger\<close> is its zero value
  \<^verbatim>\<open>slog.Logger{}\<close>: the handler is nil, and \<^verbatim>\<open>Info\<close> and \<^verbatim>\<open>Error\<close> call through it,
  which panics (\<open>None\<close>).  \<open>Logger\<close> is a logger with a handler: \<^verbatim>\<open>Info\<close> and
  \<^verbatim>\<open>Error\<close> append one record each.
\<close>

datatype slog_Logger = ZeroLogger | Logger

fun slog_Info :: "slog_Logger \<Rightarrow> string \<Rightarrow> 'x world \<Rightarrow> 'x world option" where
  "slog_Info ZeroLogger msg w = None"
| "slog_Info Logger msg w = Some (w\<lparr>logged := logged w @ [(LevelInfo, msg)]\<rparr>)"

fun slog_Error :: "slog_Logger \<Rightarrow> string \<Rightarrow> 'x world \<Rightarrow> 'x world option" where
  "slog_Error ZeroLogger msg w = None"
| "slog_Error Logger msg w = Some (w\<lparr>logged := logged w @ [(LevelError, msg)]\<rparr>)"

text \<open>
  The runtime client.  \<^verbatim>\<open>DockerClient\<close> is not declared in the file; its two methods
  are taken as parameters, with the argument lists the calls in the file give them
  (those of the Docker API client).
\<close>

record ContainerConfig =
  Config_Image :: string
  Config_ExposedPorts :: "Port set"

datatype HostConfig = HostConfig

datatype NetworkingConfig = NetworkingConfig

datatype StartOptions = StartOptions

record CreateResponse =
  Response_ID :: string
  Warnings :: "string list"

record 'x DockerClient =
  ContainerCreate :: "context \<Rightarrow> ContainerConfig option \<Rightarrow> HostConfig option \<Rightarrow>
    NetworkingConfig option \<Rightarrow> Platform option \<Rightarrow> string \<Rightarrow> 'x \<Rightarrow> (CreateResponse \<times> error option) \<times> 'x"
  ContainerStart :: "context \<Rightarrow> string \<Rightarrow> StartOptions \<Rightarrow> 'x \<Rightarrow> error option \<times> 'x"

text \<open>
  \<^verbatim>\<open>wait.Strategy\<close>, with its one method \<^verbatim>\<open>WaitUntilReady\<close>.  The target it is
  handed, \<^verbatim>\<open>&Adapted{started}\<close>, is declared outside the file; here it carries the
  identifier of the started container.
\<close>

datatype Adapted = Adapted string

datatype 'x wait_Strategy =
  NilStrategy
  | Strategy (WaitUntilReady: "context \<Rightarrow> Adapted \<Rightarrow> 'x \<Rightarrow> error option \<times> 'x")

subsection \<open>Image sources\<close>

record FromImageSource =
  image' :: string
  platform :: "Platform option"

text \<open>
  The interface \<^verbatim>\<open>ContainerImageSource\<close>: nil, a \<^verbatim>\<open>*FromImageSource\<close>, or any other
  implementation of \<^verbatim>\<open>Prepare\<close>, given by what it does to the runtime state.
\<close>

datatype 'x ContainerImageSource =
  NilImageSource
  | FromImageSrc FromImageSource
  | ImageSourceImpl "context \<Rightarrow> 'x \<Rightarrow> (string \<times> error option) \<times> 'x"

definition FromImageSource_Prepare :: "FromImageSource \<Rightarrow> context \<Rightarrow> string \<times> error option" where
  "FromImageSource_Prepare f cx = (image' f, None)"

fun Prepare :: "'x ContainerImageSource \<Rightarrow> context \<Rightarrow> 'x world \<Rightarrow>
    ((string \<times> error option) \<times> 'x world) option" where
  "Prepare NilImageSource cx w = None"
| "Prepare (FromImageSrc f) cx w = Some (FromImageSource_Prepare f cx, w)"
| "Prepare (ImageSourceImpl p) cx w = Some (on_runtime (p cx) w)"

definition WithImagePlatform :: "string \<Rightarrow> FromImageSource \<Rightarrow> FromImageSource" where
  "WithImagePlatform p =
     (\<lambda>s. s\<lparr>platform := Some \<lparr>Architecture = ''amd64'', OS = ''linux'',
                               OSVersion = '''', OSFeatures = [], Variant = ''''\<rparr>\<rparr>)"

definition FromImage :: "string \<Rightarrow> (FromImageSource \<Rightarrow> FromImageSource) list \<Rightarrow> FromImageSource" where
  "FromImage img option = fold (\<lambda>opt s. opt s) option \<lparr>image' = img, platform = None\<rparr>"

subsection \<open>Definitions and container handles\<close>

text \<open>
  The interfaces \<^verbatim>\<open>ContainerCreator\<close> and \<^verbatim>\<open>ContainerStarter\<close> with the
  implementations the file gives them; \<^verbatim>\<open>ContainerTerminator\<close> has none, so only nil
  inhabits it.
\<close>

datatype 'x ContainerCreator =
  NilCreator
  | ContainerImageCreator "'x DockerClient"
  | LoggingContainerCreator "'x ContainerCreator" slog_Logger

datatype 'x ContainerStarter =
  NilStarter
  | DockerContainerStarter "'x DockerClient"
  | AwaitingContainerStarter "'x ContainerStarter" "'x wait_Strategy"

datatype ContainerTerminator = NilTerminator

record 'x GenericContainerDefinition =
  imageSource :: "'x ContainerImageSource"
  exposedPorts :: "Port list"
  creator :: "'x ContainerCreator"
  starter :: "'x ContainerStarter"
  terminator :: ContainerTerminator

record 'x CreatedContainer =
  ID :: string
  defn :: "'x GenericContainerDefinition"

datatype 'x StartedContainer = StartedContainer (CreatedContainer: "'x CreatedContainer")

text \<open>The zero values \<^verbatim>\<open>CreatedContainer{}\<close> and \<^verbatim>\<open>StartedContainer{}\<close>.\<close>

definition zero_GenericContainerDefinition :: "'x GenericContainerDefinition" where
  "zero_GenericContainerDefinition =
     \<lparr>imageSource = NilImageSource, exposedPorts = [], creator = NilCreator,
      starter = NilStarter, terminator = NilTerminator\<rparr>"

definition zero_CreatedContainer :: "'x CreatedContainer" where
  "zero_CreatedContainer = \<lparr>ID = '''', defn = zero_GenericContainerDefinition\<rparr>"

definition zero_StartedContainer :: "'x StartedContainer" where
  "zero_StartedContainer = StartedContainer zero_CreatedContainer"

subsection \<open>Options of a definition\<close>

definition WithExposedPorts :: "Port list \<Rightarrow> 'x GenericContainerDefinition \<Rightarrow> 'x GenericContainerDefinition" where
  "WithExposedPorts ports =
     (\<lambda>c. fold (\<lambda>port c. c\<lparr>exposedPorts := exposedPorts c @ [port]\<rparr>) ports c)"

definition WaitingFor :: "'x wait_Strategy \<Rightarrow> 'x GenericContainerDefinition \<Rightarrow> 'x GenericContainerDefinition" where
  "WaitingFor wait = (\<lambda>c. c\<lparr>starter := AwaitingContainerStarter (starter c) wait\<rparr>)"

subsection \<open>Creators\<close>

text \<open>
  \<^verbatim>\<open>Create\<close> dispatches on the creator: \<^verbatim>\<open>ContainerImageCreator.Create\<close> prepares the
  image and calls \<^verbatim>\<open>ContainerCreate(ctx, nil, nil, nil, nil, "")\<close>;
  \<^verbatim>\<open>LoggingContainerCreator.Create\<close> logs around its inner creator.
\<close>

fun Create :: "'x ContainerCreator \<Rightarrow> context \<Rightarrow> 'x GenericContainerDefinition \<Rightarrow> 'x world \<Rightarrow>
    (('x CreatedContainer \<times> error option) \<times> 'x world) option" where
  "Create NilCreator cx d w = None"
| "Create (ContainerImageCreator cl) cx d w =
     (case Prepare (imageSource d) cx w of
        None \<Rightarrow> None
      | Some ((img, err), w1) \<Rightarrow>
          if err \<noteq> None then Some ((zero_CreatedContainer, err), w1)
          else (case on_runtime (ContainerCreate cl cx None None None None '''') w1 of
                  ((created, err), w2) \<Rightarrow>
                    if err \<noteq> None then Some ((zero_CreatedContainer, err), w2)
                    else Some ((\<lparr>ID = Response_ID created, defn = d\<rparr>, None), w2)))"
| "Create (LoggingContainerCreator inner lg) cx d w =
     (case slog_Info lg ''Creating container'' w of
        None \<Rightarrow> None
      | Some w0 \<Rightarrow>
          (case Create inner cx d w0 of
             None \<Rightarrow> None
           | Some ((create, err), w1) \<Rightarrow>
               if err \<noteq> None
               then (case slog_Error lg ''Failed to create container'' w1 of
                       None \<Rightarrow> None
                     | Some w2 \<Rightarrow> Some ((create, err), w2))
               else (case slog_Info lg ''Created container'' w1 of
                       None \<Rightarrow> None
                     | Some w2 \<Rightarrow> Some ((create, err), w2))))"

subsection \<open>Starters\<close>

fun Start :: "'x ContainerStarter \<Rightarrow> context \<Rightarrow> 'x CreatedContainer \<Rightarrow> 'x world \<Rightarrow>
    (('x StartedContainer \<times> error option) \<times> 'x world) option" where
  "Start NilStarter cx container w = None"
| "Start (DockerContainerStarter cl) cx container w =
     (case on_runtime (ContainerStart cl cx (ID container) StartOptions) w of
        (err, w1) \<Rightarrow>
          if err \<noteq> None then Some ((zero_StartedContainer, err), w1)
          else Some ((StartedContainer container, None), w1))"
| "Start (AwaitingContainerStarter inner wait) cx container w =
     (case Start inner cx container w of
        None \<Rightarrow> None
      | Some ((started, err), w1) \<Rightarrow>
          if err \<noteq> None then Some ((started, err), w1)
          else (case wait of
                  NilStrategy \<Rightarrow> None
                | Strategy wait_until_ready \<Rightarrow>
                    (case on_runtime (wait_until_ready cx (Adapted (ID (CreatedContainer started)))) w1 of
                       (err, w2) \<Rightarrow>
                         if err \<noteq> None then Some ((started, err), w2)
                         else Some ((started, None), w2))))"

subsection \<open>The orchestrator\<close>

record ExecutionConfiguration =
  ctx :: "context"

definition WithContext :: "context \<Rightarrow> ExecutionConfiguration \<Rightarrow> ExecutionConfiguration" where
  "WithContext cx = (\<lambda>conf. conf\<lparr>ctx := cx\<rparr>)"

record 'x Testcontainers =
  client :: "'x DockerClient"
  logger :: slog_Logger

text \<open>
  The package variable \<^verbatim>\<open>tc = &Testcontainers{client: &DockerClient{}}\<close>, behind the
  package-level \<^verbatim>\<open>NewGenericContainer\<close>, \<^verbatim>\<open>Run\<close> and \<^verbatim>\<open>Info\<close>.  Its client is a
  parameter (the type is declared outside the file); its logger is not set, hence the
  zero \<^verbatim>\<open>slog.Logger\<close>.
\<close>

definition tc :: "'x DockerClient \<Rightarrow> 'x Testcontainers" where
  "tc docker = \<lparr>client = docker, logger = ZeroLogger\<rparr>"

definition NewGenericContainer :: "'x Testcontainers \<Rightarrow> 'x ContainerImageSource \<Rightarrow>
    ('x GenericContainerDefinition \<Rightarrow> 'x GenericContainerDefinition) list \<Rightarrow> 'x GenericContainerDefinition" where
  "NewGenericContainer t source option =
     fold (\<lambda>opt c. opt c) option
       \<lparr>imageSource = source, exposedPorts = [],
        creator = LoggingContainerCreator (ContainerImageCreator (client t)) (logger t),
        starter = DockerContainerStarter (client t),
        terminator = NilTerminator\<rparr>"

definition Run :: "'x Testcontainers \<Rightarrow> 'x GenericContainerDefinition \<Rightarrow>
    (ExecutionConfiguration \<Rightarrow> ExecutionConfiguration) list \<Rightarrow> 'x world \<Rightarrow>
    (('x StartedContainer option \<times> error option) \<times> 'x world) option" where
  "Run t container option w =
     (let conf = fold (\<lambda>opt conf. opt conf) option \<lparr>ctx = Background\<rparr> in
      case Create (creator container) (ctx conf) container w of
        None \<Rightarrow> None
      | Some ((created, err), w1) \<Rightarrow>
          if err \<noteq> None then Some ((None, err), w1)
          else (case Start (starter container) (ctx conf) created w1 of
                  None \<Rightarrow> None
                | Some ((started, err), w2) \<Rightarrow>
                    if err \<noteq> None then Some ((None, err), w2)
                    else Some ((Some started, None), w2)))"

datatype ContainerInfo = ContainerInfo

definition Host :: "ContainerInfo \<Rightarrow> string" where
  "Host ci = ''''"

definition MappedPort :: "ContainerInfo \<Rightarrow> Port \<Rightarrow> string" where
  "MappedPort ci port = ''''"

definition Info :: "'x Testcontainers \<Rightarrow> 'x StartedContainer option \<Rightarrow>
    (ExecutionConfiguration \<Rightarrow> ExecutionConfiguration) list \<Rightarrow> 'x world \<Rightarrow>
    (ContainerInfo \<times> error option) \<times> 'x world" where
  "Info t container option w =
     (let conf = fold (\<lambda>opt conf. opt conf) option \<lparr>ctx = Background\<rparr> in
      ((ContainerInfo, None), w))"

subsection \<open>The contract of the runtime client\<close>

text \<open>
  Modelled from the spec: the code of \<^verbatim>\<open>DockerClient.ContainerCreate\<close> is not in the
  file.  The spec's data model has the identifier of a created container as an
  ``opaque runtime identifier (non-empty string on success)'', and the runtime
  capability as \<^verbatim>\<open>CreateContainer(ctx, imageRef, portSpec) -> (id, err)\<close>: a create call
  that reports no error answers with a non-empty identifier.
\<close>

definition assigns_nonempty_id :: "'x DockerClient \<Rightarrow> bool" where
  "assigns_nonempty_id cl =
     (\<forall>cx cfg hc nc p name x r x'.
        ContainerCreate cl cx cfg hc nc p name x = ((r, None), x') \<longrightarrow> Response_ID r \<noteq> '''')"

text \<open>Every runtime client a creator reaches honours that contract.\<close>

fun creator_runtime_ok :: "'x ContainerCreator \<Rightarrow> bool" where
  "creator_runtime_ok NilCreator = True"
| "creator_runtime_ok (ContainerImageCreator cl) = assigns_nonempty_id cl"
| "creator_runtime_ok (LoggingContainerCreator inner lg) = creator_runtime_ok inner"

subsection \<open>Test doubles\<close>

text \<open>
  A runtime that counts the calls it receives: the client answers every create with
  the given identifier and error, every start with the given error; the readiness
  strategy answers with the given error.
\<close>

record Calls =
  create_calls :: nat
  start_calls :: nat
  wait_calls :: nat

definition calls :: "nat \<Rightarrow> nat \<Rightarrow> nat \<Rightarrow> Calls" where
  "calls c s r = \<lparr>create_calls = c, start_calls = s, wait_calls = r\<rparr>"

definition no_calls :: Calls where
  "no_calls = calls 0 0 0"

definition stub_client :: "string \<Rightarrow> error option \<Rightarrow> error option \<Rightarrow> Calls DockerClient" where
  "stub_client ident create_err start_err =
     \<lparr>ContainerCreate = (\<lambda>cx cfg hc nc p name x.
         ((\<lparr>Response_ID = ident, Warnings = []\<rparr>, create_err),
          x\<lparr>create_calls := Suc (create_calls x)\<rparr>)),
      ContainerStart = (\<lambda>cx ident so x. (start_err, x\<lparr>start_calls := Suc (start_calls x)\<rparr>))\<rparr>"

definition stub_strategy :: "error option \<Rightarrow> Calls wait_Strategy" where
  "stub_strategy err = Strategy (\<lambda>cx target x. (err, x\<lparr>wait_calls := Suc (wait_calls x)\<rparr>))"

definition stub_tc :: "error option \<Rightarrow> error option \<Rightarrow> Calls Testcontainers" where
  "stub_tc create_err start_err =
     \<lparr>client = stub_client ''abc'' create_err start_err, logger = Logger\<rparr>"

text \<open>The definition that \<^verbatim>\<open>examples/nginx\<close> builds, against the counting runtime.\<close>

definition nginx :: "error option \<Rightarrow> error option \<Rightarrow> error option \<Rightarrow> Calls GenericContainerDefinition" where
  "nginx create_err start_err wait_err =
     NewGenericContainer (stub_tc create_err start_err)
       (FromImageSrc (FromImage ''nginx'' [WithImagePlatform ''linux/amd64'']))
       [WithExposedPorts [''80/tcp''], WaitingFor (stub_strategy wait_err)]"

text \<open>A runtime that records the arguments of every create request.\<close>

definition recording_client ::
  "(ContainerConfig option \<times> HostConfig option \<times> NetworkingConfig option \<times> Platform option \<times> string) list
     DockerClient" where
  "recording_client =
     \<lparr>ContainerCreate = (\<lambda>cx cfg hc nc p name x.
         ((\<lparr>Response_ID = ''abc'', Warnings = []\<rparr>, None), x @ [(cfg, hc, nc, p, name)])),
      ContainerStart = (\<lambda>cx ident so x. (None, x))\<rparr>"

text \<open>
  The definition the package-level \<^verbatim>\<open>NewGenericContainer(FromImage("nginx"))\<close> builds,
  from \<open>tc\<close> over the counting runtime.
\<close>

definition default_nginx :: "Calls GenericContainerDefinition" where
  "default_nginx =
     NewGenericContainer (tc (stub_client ''abc'' None None)) (FromImageSrc (FromImage ''nginx'' [])) []"

text \<open>Putting log records in front of those a call wrote.\<close>

definition prepend_log :: "(Level \<times> string) list \<Rightarrow> 'a \<times> 'x world \<Rightarrow> 'a \<times> 'x world" where
  "prepend_log l = (\<lambda>(r, w). (r, w\<lparr>logged := l @ logged w\<rparr>))"

lemmas fixture_defs = stub_tc_def nginx_def stub_client_def stub_strategy_def calls_def no_calls_def
  NewGenericContainer_def WithExposedPorts_def WaitingFor_def WithContext_def FromImage_def
  WithImagePlatform_def FromImageSource_Prepare_def on_runtime_def tc_def default_nginx_def
  zero_StartedContainer_def zero_CreatedContainer_def zero_GenericContainerDefinition_def

section \<open>Building a definition\<close>

lemma WithExposedPorts_append:
  "WithExposedPorts ports c = c\<lparr>exposedPorts := exposedPorts c @ ports\<rparr>"
proof -
  have "fold (\<lambda>port c. c\<lparr>exposedPorts := exposedPorts c @ [port]\<rparr>) ports c
        = c\<lparr>exposedPorts := exposedPorts c @ ports\<rparr>"
    for c :: "('a, 'b) GenericContainerDefinition_scheme"
    by (induction ports arbitrary: c) simp_all
  then show ?thesis by (simp add: WithExposedPorts_def)
qed

lemma fold_WithExposedPorts:
  "fold (\<lambda>opt c. opt c) (map WithExposedPorts pss) c
     = c\<lparr>exposedPorts := exposedPorts c @ concat pss\<rparr>"
  by (induction pss arbitrary: c) (simp_all add: WithExposedPorts_append)

text \<open>
  C6.  Applying any sequence of \<^verbatim>\<open>WithExposedPorts\<close> options, with port lists \<open>pss\<close>,
  appends exactly the supplied ports in the supplied order: a definition built by
  \<^verbatim>\<open>NewGenericContainer\<close> exposes \<open>concat pss\<close>, whose length is the total number of
  ports supplied, duplicates included; applied to any definition \<open>c\<close>, the options
  leave its ports in front and add \<open>concat pss\<close> behind.
\<close>

theorem WithExposedPorts_pure_append:
  "exposedPorts (NewGenericContainer t source (map WithExposedPorts pss)) = concat pss \<and>
   length (exposedPorts (NewGenericContainer t source (map WithExposedPorts pss)))
     = sum_list (map length pss) \<and>
   exposedPorts (fold (\<lambda>opt c. opt c) (map WithExposedPorts pss) c) = exposedPorts c @ concat pss"
  by (simp add: NewGenericContainer_def fold_WithExposedPorts length_concat)

theorem WithExposedPorts_pure_append_witness:
  "exposedPorts (NewGenericContainer (stub_tc None None) NilImageSource
     (map WithExposedPorts [[''80/tcp'', ''80/tcp''], [], [''443/tcp'', ''80/tcp'']]))
   = [''80/tcp'', ''80/tcp'', ''443/tcp'', ''80/tcp'']"
  using WithExposedPorts_pure_append
    [of "stub_tc None None" NilImageSource "[[''80/tcp'', ''80/tcp''], [], [''443/tcp'', ''80/tcp'']]",
     THEN conjunct1]
  by simp

section \<open>Image sources\<close>

lemma fold_WithImagePlatform_image:
  "image' (fold (\<lambda>opt s. opt s) (map WithImagePlatform ps) s) = image' s"
  by (induction ps arbitrary: s) (simp_all add: WithImagePlatform_def)

text \<open>
  C7.  For every image string, every list of platform options and every context,
  \<^verbatim>\<open>Prepare\<close> on the source \<^verbatim>\<open>FromImage\<close> builds returns the image string with a nil
  error and leaves the world as it was; a second call, made after the first, returns
  the same.  In particular \<^verbatim>\<open>FromImage("nginx", WithImagePlatform("linux/amd64"))\<close>
  prepares to \<^verbatim>\<open>("nginx", nil)\<close>.
\<close>

theorem FromImage_Prepare:
  "Prepare (FromImageSrc (FromImage img (map WithImagePlatform ps))) cx w = Some ((img, None), w) \<and>
   Prepare (FromImageSrc (FromImage img (map WithImagePlatform ps))) cx
     (snd (the (Prepare (FromImageSrc (FromImage img (map WithImagePlatform ps))) cx w)))
     = Some ((img, None), w) \<and>
   FromImageSource_Prepare (FromImage ''nginx'' [WithImagePlatform ''linux/amd64'']) cx
     = (''nginx'', None)"
  by (simp add: FromImage_def FromImageSource_Prepare_def fold_WithImagePlatform_image
      WithImagePlatform_def)

text \<open>
  C9.  \<^verbatim>\<open>WithImagePlatform\<close> ignores its argument: for every platform string the
  option sets the platform to architecture \<^verbatim>\<open>amd64\<close>, OS \<^verbatim>\<open>linux\<close>; any two platform
  strings give the same option, and \<^verbatim>\<open>FromImage\<close> with either gives the same source.
\<close>

theorem WithImagePlatform_ignores_argument:
  "WithImagePlatform p s = s\<lparr>platform := Some \<lparr>Architecture = ''amd64'', OS = ''linux'',
       OSVersion = '''', OSFeatures = [], Variant = ''''\<rparr>\<rparr> \<and>
   WithImagePlatform p = WithImagePlatform q \<and>
   FromImage img [WithImagePlatform p] = FromImage img [WithImagePlatform q]"
  by (simp add: WithImagePlatform_def FromImage_def)

section \<open>Creators\<close>

text \<open>
  What a creator does depends on the runtime state only; the log records it writes
  come after those already there.
\<close>

lemma Prepare_frame:
  "Prepare s cx \<lparr>logged = l, runtime = x\<rparr>
     = map_option (prepend_log l) (Prepare s cx \<lparr>logged = [], runtime = x\<rparr>)"
  by (cases s) (simp_all add: prepend_log_def on_runtime_def split: prod.splits)

lemma Create_frame:
  "Create c cx d \<lparr>logged = l, runtime = x\<rparr>
     = map_option (prepend_log l) (Create c cx d \<lparr>logged = [], runtime = x\<rparr>)"
proof (induction c arbitrary: l)
  case NilCreator
  show ?case by simp
next
  case (ContainerImageCreator cl)
  show ?case
    by (cases "imageSource d")
       (simp_all add: prepend_log_def on_runtime_def FromImageSource_Prepare_def split: prod.splits)
next
  case (LoggingContainerCreator inner lg)
  have a: "Create inner cx d \<lparr>logged = l @ [e], runtime = x\<rparr>
        = map_option (prepend_log (l @ [e])) (Create inner cx d \<lparr>logged = [], runtime = x\<rparr>)" for e
    by (rule LoggingContainerCreator.IH)
  have b: "Create inner cx d \<lparr>logged = [e], runtime = x\<rparr>
        = map_option (prepend_log [e]) (Create inner cx d \<lparr>logged = [], runtime = x\<rparr>)" for e
    by (rule LoggingContainerCreator.IH)
  show ?case
  proof (cases lg)
    case ZeroLogger
    then show ?thesis by simp
  next
    case Logger
    then show ?thesis
      by (cases "Create inner cx d \<lparr>logged = [], runtime = x\<rparr>")
         (auto simp add: a b prepend_log_def)
  qed
qed

lemma Create_inner_panics:
  "Create inner cx d w = None \<Longrightarrow> Create (LoggingContainerCreator inner lg) cx d w = None"
proof -
  assume h: "Create inner cx d w = None"
  obtain l x where w: "w = \<lparr>logged = l, runtime = x\<rparr>" by (cases w) simp
  from h have "Create inner cx d \<lparr>logged = [], runtime = x\<rparr> = None"
    unfolding w by (subst (asm) Create_frame) simp
  then have "Create inner cx d \<lparr>logged = l @ [(LevelInfo, ''Creating container'')], runtime = x\<rparr> = None"
    by (subst Create_frame) simp
  then show ?thesis by (cases lg) (simp_all add: w)
qed

lemma Create_success:
  "Create c cx d w = Some ((created, None), w1) \<Longrightarrow> defn created = d"
proof (induction c arbitrary: w w1)
  case NilCreator
  then show ?case by simp
next
  case (ContainerImageCreator cl)
  then show ?case by (auto split: option.splits prod.splits if_splits)
next
  case (LoggingContainerCreator inner lg)
  then show ?case by (auto split: option.splits prod.splits if_splits)
qed

lemma Create_success_ID:
  "Create c cx d w = Some ((created, None), w1) \<Longrightarrow> creator_runtime_ok c \<Longrightarrow> ID created \<noteq> ''''"
proof (induction c arbitrary: w w1)
  case NilCreator
  then show ?case by simp
next
  case (ContainerImageCreator cl)
  from ContainerImageCreator(1) have
    "\<exists>x r x'. ContainerCreate cl cx None None None None '''' x = ((r, None), x') \<and>
       ID created = Response_ID r"
    by (fastforce simp add: on_runtime_def split: option.splits prod.splits if_splits)
  with ContainerImageCreator(2) show ?case
    unfolding creator_runtime_ok.simps assigns_nonempty_id_def by metis
next
  case (LoggingContainerCreator inner lg)
  then show ?case by (auto split: option.splits prod.splits if_splits)
qed

text \<open>
  C2.  The base creator prepares the image first and, when that succeeds, issues the
  create request; the claim has the request carry the resolved image reference and
  the definition's exposed ports.  For the definition of image \<^verbatim>\<open>nginx\<close> exposing
  \<^verbatim>\<open>80/tcp\<close>, the one request the runtime receives is
  \<^verbatim>\<open>ContainerCreate(ctx, nil, nil, nil, nil, "")\<close>: no configuration, hence neither the
  image nor the port; the container returned carries the runtime's identifier.
\<close>

theorem ContainerImageCreator_request:
  "map_option (\<lambda>(r, w). (ID (fst r), snd r, runtime w))
     (Create (ContainerImageCreator recording_client) Background
        (NewGenericContainer \<lparr>client = recording_client, logger = Logger\<rparr>
           (FromImageSrc (FromImage ''nginx'' [])) [WithExposedPorts [''80/tcp'']])
        \<lparr>logged = [], runtime = []\<rparr>)
   = Some (''abc'', None, [(None, None, None, None, '''')])"
  by (simp add: recording_client_def fixture_defs)

text \<open>
  With a logger that has a handler: whenever the inner creator returns a container
  \<open>c\<close> and an error \<open>e\<close> (nil or not), the logging creator returns the same container
  and the same error, and leaves the runtime in the state one call of the inner
  creator leaves it in.  The log holds the record ``Creating container'', then the
  records \<open>ls\<close> of the inner creator, then ``Created container'' on success or
  ``Failed to create container'' on failure.
\<close>

lemma LoggingContainerCreator_with_handler:
  assumes "Create inner cx d w = Some ((c, e), w1)"
  shows "\<exists>ls. logged w1 = logged w @ ls \<and>
           Create (LoggingContainerCreator inner Logger) cx d w =
             Some ((c, e),
               \<lparr>logged = logged w @ [(LevelInfo, ''Creating container'')] @ ls @
                   [if e = None then (LevelInfo, ''Created container'')
                    else (LevelError, ''Failed to create container'')],
                runtime = runtime w1\<rparr>)"
proof -
  obtain l x where w: "w = \<lparr>logged = l, runtime = x\<rparr>" by (cases w) simp
  from assms obtain w0 where
    w0: "Create inner cx d \<lparr>logged = [], runtime = x\<rparr> = Some ((c, e), w0)"
    and w1: "w1 = w0\<lparr>logged := l @ logged w0\<rparr>"
    unfolding w by (subst (asm) Create_frame) (auto simp add: prepend_log_def)
  have "Create inner cx d \<lparr>logged = l @ [(LevelInfo, ''Creating container'')], runtime = x\<rparr>
        = Some ((c, e), w0\<lparr>logged := (l @ [(LevelInfo, ''Creating container'')]) @ logged w0\<rparr>)"
    by (subst Create_frame) (simp add: w0 prepend_log_def)
  then have "Create (LoggingContainerCreator inner Logger) cx d w =
             Some ((c, e),
               \<lparr>logged = logged w @ [(LevelInfo, ''Creating container'')] @ logged w0 @
                   [if e = None then (LevelInfo, ''Created container'')
                    else (LevelError, ''Failed to create container'')],
                runtime = runtime w1\<rparr>)"
    by (simp add: w w1)
  moreover have "logged w1 = logged w @ logged w0" by (simp add: w w1)
  ultimately show ?thesis by blast
qed

text \<open>
  C5.  The claim has the logging creator call its inner creator exactly once and
  return the inner container and error unchanged.  The decorator logs before it
  delegates, and the logger \<^verbatim>\<open>NewGenericContainer\<close> hands it is that of the package's
  \<open>tc\<close>, the zero \<^verbatim>\<open>slog.Logger\<close>.  With that logger \<^verbatim>\<open>Create\<close> panics at
  ``Creating container'', whatever the inner creator is: the inner creator is not
  called and nothing is returned.  At the definition built for image \<^verbatim>\<open>nginx\<close>, the
  creator is the decorator with the zero logger; its inner creator alone returns
  the container \<^verbatim>\<open>abc\<close> with a nil error after one create request, while the decorated
  \<^verbatim>\<open>Create\<close>, and \<^verbatim>\<open>Run\<close> with it, panic.
\<close>

theorem LoggingContainerCreator_zero_logger:
  "Create (LoggingContainerCreator inner ZeroLogger) cx d w = None \<and>
   creator default_nginx
     = LoggingContainerCreator (ContainerImageCreator (stub_client ''abc'' None None)) ZeroLogger \<and>
   Create (ContainerImageCreator (stub_client ''abc'' None None)) Background default_nginx
     \<lparr>logged = [], runtime = no_calls\<rparr>
     = Some ((\<lparr>ID = ''abc'', defn = default_nginx\<rparr>, None), \<lparr>logged = [], runtime = calls 1 0 0\<rparr>) \<and>
   Create (creator default_nginx) Background default_nginx \<lparr>logged = [], runtime = no_calls\<rparr> = None \<and>
   Run (tc (stub_client ''abc'' None None)) default_nginx [] \<lparr>logged = [], runtime = no_calls\<rparr> = None"
proof -
  have c: "creator default_nginx
     = LoggingContainerCreator (ContainerImageCreator (stub_client ''abc'' None None)) ZeroLogger"
    by (simp add: default_nginx_def NewGenericContainer_def tc_def)
  have i: "Create (ContainerImageCreator (stub_client ''abc'' None None)) Background default_nginx
     \<lparr>logged = [], runtime = no_calls\<rparr>
     = Some ((\<lparr>ID = ''abc'', defn = default_nginx\<rparr>, None), \<lparr>logged = [], runtime = calls 1 0 0\<rparr>)"
    by (simp add: default_nginx_def NewGenericContainer_def tc_def FromImage_def
        FromImageSource_Prepare_def stub_client_def on_runtime_def calls_def no_calls_def)
  have z: "Create (LoggingContainerCreator inner ZeroLogger) cx d w = None"
    by simp
  have p: "Create (creator default_nginx) Background default_nginx
     \<lparr>logged = [], runtime = no_calls\<rparr> = None"
    by (simp add: c)
  have r: "Run (tc (stub_client ''abc'' None None)) default_nginx []
     \<lparr>logged = [], runtime = no_calls\<rparr> = None"
    by (simp add: Run_def p)
  from z c i p r show ?thesis by blast
qed

section \<open>Starters\<close>

lemma Start_success:
  "Start s cx container w = Some ((started, None), w1) \<Longrightarrow> started = StartedContainer container"
proof (induction s arbitrary: started w1)
  case NilStarter
  then show ?case by simp
next
  case (DockerContainerStarter cl)
  then show ?case by (auto split: prod.splits if_splits)
next
  case (AwaitingContainerStarter inner wait)
  then show ?case
    by (auto split: option.splits prod.splits if_splits wait_Strategy.splits)
qed

text \<open>
  C4.  When the inner starter of the readiness-awaiting starter returns a container
  with an error, the decorator returns that container and that error, and the world
  is the one the inner starter left: whatever the readiness strategy is (a counting
  one, or nil), it was not called.
\<close>

theorem Awaiting_inner_failure:
  "Start inner cx container w = Some ((started, Some e), w1) \<Longrightarrow>
   Start (AwaitingContainerStarter inner wait) cx container w = Some ((started, Some e), w1)"
  by simp

theorem Awaiting_inner_failure_witness:
  "Start (DockerContainerStarter (stub_client ''abc'' None (Some ''cannot start''))) Background
     \<lparr>ID = ''abc'', defn = nginx None (Some ''cannot start'') None\<rparr> \<lparr>logged = [], runtime = no_calls\<rparr>
   = Some ((zero_StartedContainer, Some ''cannot start''), \<lparr>logged = [], runtime = calls 0 1 0\<rparr>) \<and>
   Start (AwaitingContainerStarter (DockerContainerStarter (stub_client ''abc'' None (Some ''cannot start'')))
            (stub_strategy None)) Background
     \<lparr>ID = ''abc'', defn = nginx None (Some ''cannot start'') None\<rparr> \<lparr>logged = [], runtime = no_calls\<rparr>
   = Some ((zero_StartedContainer, Some ''cannot start''), \<lparr>logged = [], runtime = calls 0 1 0\<rparr>)"
proof -
  have h: "Start (DockerContainerStarter (stub_client ''abc'' None (Some ''cannot start''))) Background
     \<lparr>ID = ''abc'', defn = nginx None (Some ''cannot start'') None\<rparr> \<lparr>logged = [], runtime = no_calls\<rparr>
   = Some ((zero_StartedContainer, Some ''cannot start''), \<lparr>logged = [], runtime = calls 0 1 0\<rparr>)"
    by (simp add: stub_client_def on_runtime_def calls_def no_calls_def)
  from Awaiting_inner_failure [OF h, of "stub_strategy None"] h show ?thesis by simp
qed

section \<open>The orchestrator\<close>

text \<open>
  C3.  When the creator of the definition returns an error \<open>e\<close>, \<^verbatim>\<open>Run\<close> returns a nil
  handle with that same error, and the world is the one \<^verbatim>\<open>Create\<close> left: the starter
  of the definition, whatever it is, was not called.
\<close>

theorem Run_create_error:
  "Create (creator d) (ctx (fold (\<lambda>opt conf. opt conf) option \<lparr>ctx = Background\<rparr>)) d w
     = Some ((created, Some e), w1) \<Longrightarrow>
   Run t d option w = Some ((None, Some e), w1)"
  by (simp add: Run_def Let_def)

theorem Run_create_error_witness:
  "Create (creator (nginx (Some ''no such image'') None None)) (CallerContext 1)
     (nginx (Some ''no such image'') None None) \<lparr>logged = [], runtime = no_calls\<rparr>
   = Some ((zero_CreatedContainer, Some ''no such image''),
        \<lparr>logged = [(LevelInfo, ''Creating container''), (LevelError, ''Failed to create container'')],
         runtime = calls 1 0 0\<rparr>) \<and>
   Run (stub_tc (Some ''no such image'') None) (nginx (Some ''no such image'') None None)
     [WithContext (CallerContext 1)] \<lparr>logged = [], runtime = no_calls\<rparr>
   = Some ((None, Some ''no such image''),
        \<lparr>logged = [(LevelInfo, ''Creating container''), (LevelError, ''Failed to create container'')],
         runtime = calls 1 0 0\<rparr>)"
proof -
  have h: "Create (creator (nginx (Some ''no such image'') None None))
      (ctx (fold (\<lambda>opt conf. opt conf) [WithContext (CallerContext 1)] \<lparr>ctx = Background\<rparr>))
     (nginx (Some ''no such image'') None None) \<lparr>logged = [], runtime = no_calls\<rparr>
   = Some ((zero_CreatedContainer, Some ''no such image''),
        \<lparr>logged = [(LevelInfo, ''Creating container''), (LevelError, ''Failed to create container'')],
         runtime = calls 1 0 0\<rparr>)"
    by (simp add: fixture_defs)
  from Run_create_error [OF h] h show ?thesis by (simp add: WithContext_def)
qed

text \<open>
  C1, as the claim states it, fails: with a runtime that creates and starts the
  container and a readiness strategy that answers ``timeout'', the inner start
  succeeds, and \<^verbatim>\<open>Run\<close> returns a nil handle with the timeout error.
\<close>

theorem Run_readiness_error_counterexample:
  "Start (DockerContainerStarter (stub_client ''abc'' None None)) Background
     \<lparr>ID = ''abc'', defn = nginx None None (Some ''timeout'')\<rparr>
     \<lparr>logged = [(LevelInfo, ''Creating container''), (LevelInfo, ''Created container'')],
      runtime = calls 1 0 0\<rparr>
   = Some ((StartedContainer \<lparr>ID = ''abc'', defn = nginx None None (Some ''timeout'')\<rparr>, None),
        \<lparr>logged = [(LevelInfo, ''Creating container''), (LevelInfo, ''Created container'')],
         runtime = calls 1 1 0\<rparr>) \<and>
   Run (stub_tc None None) (nginx None None (Some ''timeout'')) [] \<lparr>logged = [], runtime = no_calls\<rparr>
   = Some ((None, Some ''timeout''),
        \<lparr>logged = [(LevelInfo, ''Creating container''), (LevelInfo, ''Created container'')],
         runtime = calls 1 1 1\<rparr>)"
  by (simp add: Run_def fixture_defs)

text \<open>
  C1, amended.  When \<^verbatim>\<open>Create\<close> succeeds, the starter of the definition is the
  readiness-awaiting decorator, its inner start succeeds and the readiness strategy
  returns an error \<open>e\<close>, the decorator's \<^verbatim>\<open>Start\<close> returns the started container
  (wrapping the created one) together with \<open>e\<close>, and \<^verbatim>\<open>Run\<close> returns a nil handle
  together with \<open>e\<close>.
\<close>

theorem Run_readiness_error:
  assumes "Create (creator d) (ctx (fold (\<lambda>opt conf. opt conf) option \<lparr>ctx = Background\<rparr>)) d w
             = Some ((created, None), w0)"
    and "starter d = AwaitingContainerStarter inner (Strategy wait_until_ready)"
    and "Start inner (ctx (fold (\<lambda>opt conf. opt conf) option \<lparr>ctx = Background\<rparr>)) created w0
             = Some ((started, None), w1)"
    and "on_runtime (wait_until_ready (ctx (fold (\<lambda>opt conf. opt conf) option \<lparr>ctx = Background\<rparr>))
             (Adapted (ID created))) w1 = (Some e, w2)"
  shows "Start (starter d) (ctx (fold (\<lambda>opt conf. opt conf) option \<lparr>ctx = Background\<rparr>)) created w0
           = Some ((StartedContainer created, Some e), w2) \<and>
         Run t d option w = Some ((None, Some e), w2)"
proof -
  let ?cx = "ctx (fold (\<lambda>opt conf. opt conf) option \<lparr>ctx = Background\<rparr>)"
  from assms(3) have st: "started = StartedContainer created" by (rule Start_success)
  have "Start (starter d) ?cx created w0 = Some ((StartedContainer created, Some e), w2)"
    using assms(3,4) by (simp add: assms(2) st)
  then show ?thesis using assms(1) by (simp add: Run_def Let_def)
qed

theorem Run_readiness_error_witness:
  "Run (stub_tc None None) (nginx None None (Some ''timeout'')) [WithContext (CallerContext 1)]
     \<lparr>logged = [], runtime = no_calls\<rparr>
   = Some ((None, Some ''timeout''),
        \<lparr>logged = [(LevelInfo, ''Creating container''), (LevelInfo, ''Created container'')],
         runtime = calls 1 1 1\<rparr>) \<and>
   Start (starter (nginx None None (Some ''timeout''))) (CallerContext 1)
     \<lparr>ID = ''abc'', defn = nginx None None (Some ''timeout'')\<rparr>
     \<lparr>logged = [(LevelInfo, ''Creating container''), (LevelInfo, ''Created container'')],
      runtime = calls 1 0 0\<rparr>
   = Some ((StartedContainer \<lparr>ID = ''abc'', defn = nginx None None (Some ''timeout'')\<rparr>, Some ''timeout''),
        \<lparr>logged = [(LevelInfo, ''Creating container''), (LevelInfo, ''Created container'')],
         runtime = calls 1 1 1\<rparr>)"
proof -
  let ?d = "nginx None None (Some ''timeout'')"
  let ?cx = "ctx (fold (\<lambda>opt conf. opt conf) [WithContext (CallerContext 1)] \<lparr>ctx = Background\<rparr>)"
  let ?l = "[(LevelInfo, ''Creating container''), (LevelInfo, ''Created container'')]"
  let ?wait = "\<lambda>(cx::context) (target::Adapted) x.
                 (Some ''timeout'', x\<lparr>wait_calls := Suc (wait_calls x)\<rparr>)"
  have cx: "?cx = CallerContext 1" by (simp add: WithContext_def)
  have h1: "Create (creator ?d) ?cx ?d \<lparr>logged = [], runtime = no_calls\<rparr>
      = Some ((\<lparr>ID = ''abc'', defn = ?d\<rparr>, None), \<lparr>logged = ?l, runtime = calls 1 0 0\<rparr>)"
    by (simp add: fixture_defs)
  have h2: "starter ?d = AwaitingContainerStarter (DockerContainerStarter (stub_client ''abc'' None None))
      (Strategy ?wait)"
    by (simp add: fixture_defs)
  have h3: "Start (DockerContainerStarter (stub_client ''abc'' None None)) ?cx \<lparr>ID = ''abc'', defn = ?d\<rparr>
      \<lparr>logged = ?l, runtime = calls 1 0 0\<rparr>
      = Some ((StartedContainer \<lparr>ID = ''abc'', defn = ?d\<rparr>, None), \<lparr>logged = ?l, runtime = calls 1 1 0\<rparr>)"
    by (simp add: stub_client_def on_runtime_def calls_def)
  have h4: "on_runtime (?wait ?cx (Adapted (ID \<lparr>ID = ''abc'', defn = ?d\<rparr>)))
      \<lparr>logged = ?l, runtime = calls 1 1 0\<rparr>
      = (Some ''timeout'', \<lparr>logged = ?l, runtime = calls 1 1 1\<rparr>)"
    by (simp add: on_runtime_def calls_def)
  from Run_readiness_error [OF h1 h2 h3 h4, of "stub_tc None None"] show ?thesis
    unfolding cx by simp
qed

text \<open>
  C8.  Against a runtime client that honours its contract (a create that reports no
  error assigns a non-empty identifier), every \<^verbatim>\<open>Run\<close> that returns without error
  went through a \<^verbatim>\<open>Create\<close> that produced a container \<open>created\<close> and a \<^verbatim>\<open>Start\<close> of
  that container; the started container returned has the identifier of \<open>created\<close>,
  and that identifier is not the empty string.
\<close>

theorem Run_success_ID:
  assumes "creator_runtime_ok (creator d)"
    and "Run t d option w = Some ((Some started, None), w2)"
  shows "\<exists>created w1.
           Create (creator d) (ctx (fold (\<lambda>opt conf. opt conf) option \<lparr>ctx = Background\<rparr>)) d w
             = Some ((created, None), w1) \<and>
           Start (starter d) (ctx (fold (\<lambda>opt conf. opt conf) option \<lparr>ctx = Background\<rparr>)) created w1
             = Some ((started, None), w2) \<and>
           ID (CreatedContainer started) = ID created \<and>
           ID created \<noteq> '''' \<and> ID (CreatedContainer started) \<noteq> ''''"
proof -
  let ?cx = "ctx (fold (\<lambda>opt conf. opt conf) option \<lparr>ctx = Background\<rparr>)"
  from assms(2) obtain created w1 where
    c: "Create (creator d) ?cx d w = Some ((created, None), w1)"
    and s: "Start (starter d) ?cx created w1 = Some ((started, None), w2)"
    by (auto simp add: Run_def Let_def split: option.splits prod.splits if_splits)
  from s have "started = StartedContainer created" by (rule Start_success)
  moreover from c assms(1) have "ID created \<noteq> ''''" by (rule Create_success_ID)
  ultimately show ?thesis using c s by auto
qed

theorem Run_success_ID_witness:
  "creator_runtime_ok (creator (nginx None None None)) \<and>
   Run (stub_tc None None) (nginx None None None) [] \<lparr>logged = [], runtime = no_calls\<rparr>
   = Some ((Some (StartedContainer \<lparr>ID = ''abc'', defn = nginx None None None\<rparr>), None),
        \<lparr>logged = [(LevelInfo, ''Creating container''), (LevelInfo, ''Created container'')],
         runtime = calls 1 1 1\<rparr>) \<and>
   ID (CreatedContainer (StartedContainer \<lparr>ID = ''abc'', defn = nginx None None None\<rparr>)) \<noteq> ''''"
proof -
  have h1: "creator_runtime_ok (creator (nginx None None None))"
    by (simp add: fixture_defs assigns_nonempty_id_def)
  have h2: "Run (stub_tc None None) (nginx None None None) [] \<lparr>logged = [], runtime = no_calls\<rparr>
   = Some ((Some (StartedContainer \<lparr>ID = ''abc'', defn = nginx None None None\<rparr>), None),
        \<lparr>logged = [(LevelInfo, ''Creating container''), (LevelInfo, ''Created container'')],
         runtime = calls 1 1 1\<rparr>)"
    by (simp add: Run_def fixture_defs)
  from Run_success_ID [OF h1 h2] have
    "ID (CreatedContainer (StartedContainer \<lparr>ID = ''abc'', defn = nginx None None None\<rparr>)) \<noteq> ''''"
    by blast
  with h1 h2 show ?thesis by blast
qed

text \<open>
  C10.  For every started container (nil included), every list of execution options
  and every world, \<^verbatim>\<open>Info\<close> returns the empty \<^verbatim>\<open>ContainerInfo\<close> and a nil error and
  leaves the world, the runtime in it, as it was; on the value returned, \<^verbatim>\<open>Host\<close> is
  the empty string and \<^verbatim>\<open>MappedPort\<close> is the empty string for every port.
\<close>

theorem Info_empty:
  "Info t container option w = ((ContainerInfo, None), w) \<and>
   Host (fst (fst (Info t container option w))) = '''' \<and>
   MappedPort (fst (fst (Info t container option w))) port = ''''"
  by (simp add: Info_def Host_def MappedPort_def)

end
